theory Spec2Isabelle
  imports Complex_Main
begin

section \<open>ROISelector (src/core/camera.py)\<close>

text \<open>
  The mouse events of OpenCV are integers; the three the selector looks at have the
  values of the OpenCV API. A point is a pair of pixel coordinates; the attributes that
  Python initialises to \<open>None\<close> are options. A tuple of two numbers is truthy in Python
  whatever its components, so \<open>if self.start_point and self.end_point\<close> only asks
  whether both are set.
\<close>

definition EVENT_MOUSEMOVE :: int where "EVENT_MOUSEMOVE = 0"
definition EVENT_LBUTTONDOWN :: int where "EVENT_LBUTTONDOWN = 1"
definition EVENT_LBUTTONUP :: int where "EVENT_LBUTTONUP = 4"

type_synonym point = "int \<times> int"
type_synonym region = "int \<times> int \<times> int \<times> int"

record ROISelector =
  start_point :: "point option"
  end_point :: "point option"
  selecting :: bool
  roi :: "region option"

definition ROISelector_init :: ROISelector where
  "ROISelector_init =
     \<lparr>start_point = None, end_point = None, selecting = False, roi = None\<rparr>"

definition mouse_callback :: "int \<Rightarrow> int \<Rightarrow> int \<Rightarrow> ROISelector \<Rightarrow> ROISelector" where
  "mouse_callback event x y s =
     (if event = EVENT_LBUTTONDOWN then
        s\<lparr>start_point := Some (x, y), selecting := True\<rparr>
      else if event = EVENT_MOUSEMOVE \<and> selecting s then
        s\<lparr>end_point := Some (x, y)\<rparr>
      else if event = EVENT_LBUTTONUP then
        (let s1 = s\<lparr>end_point := Some (x, y), selecting := False\<rparr>
         in case (start_point s1, end_point s1) of
              (Some (x1, y1), Some (x2, y2)) \<Rightarrow>
                s1\<lparr>roi := Some (min x1 x2, min y1 y2, \<bar>x2 - x1\<bar>, \<bar>y2 - y1\<bar>)\<rparr>
            | _ \<Rightarrow> s1)
      else s)"

definition get_roi :: "ROISelector \<Rightarrow> region option" where
  "get_roi s = roi s"

definition reset :: "ROISelector \<Rightarrow> ROISelector" where
  "reset s = s\<lparr>start_point := None, end_point := None, selecting := False, roi := None\<rparr>"

text \<open>A run of pointer-move events, delivered in order.\<close>

fun pointer_moves :: "point list \<Rightarrow> ROISelector \<Rightarrow> ROISelector" where
  "pointer_moves [] s = s"
| "pointer_moves ((x, y) # ps) s = pointer_moves ps (mouse_callback EVENT_MOUSEMOVE x y s)"

section \<open>PerformanceMonitor (src/utils/performance.py)\<close>

text \<open>
  Time stamps are real numbers; every \<open>time.time()\<close> is an argument of the operation
  that reads the clock. \<open>lock\<close> is the state of the \<open>threading.Lock\<close> of the
  monitor, \<open>True\<close> while it is held. That lock is not reentrant: a \<open>with self.lock\<close>
  entered while the lock is held never gets it, and the call does not return, which is
  the result \<open>None\<close> here. Leaving the \<open>with\<close> block releases the lock.
\<close>

record PerformanceMonitor =
  start_time :: real
  frame_times :: "real list"
  last_frame_time :: real
  frame_count :: nat
  detection_count :: nat
  monitoring :: bool
  lock :: bool

definition PerformanceMonitor_init :: "real \<Rightarrow> real \<Rightarrow> PerformanceMonitor" where
  "PerformanceMonitor_init t0 t1 =
     \<lparr>start_time = t0, frame_times = [], last_frame_time = t1, frame_count = 0,
      detection_count = 0, monitoring = False, lock = False\<rparr>"

definition acquire :: "PerformanceMonitor \<Rightarrow> PerformanceMonitor option" where
  "acquire s = (if lock s then None else Some (s\<lparr>lock := True\<rparr>))"

definition release :: "PerformanceMonitor \<Rightarrow> PerformanceMonitor" where
  "release s = s\<lparr>lock := False\<rparr>"

definition start_monitoring :: "PerformanceMonitor \<Rightarrow> PerformanceMonitor" where
  "start_monitoring s = s\<lparr>monitoring := True\<rparr>"

definition stop_monitoring :: "PerformanceMonitor \<Rightarrow> PerformanceMonitor" where
  "stop_monitoring s = s\<lparr>monitoring := False\<rparr>"

text \<open>\<open>xs[-60:]\<close>: the last 60 entries, all of them when there are fewer.\<close>

definition last60 :: "'a list \<Rightarrow> 'a list" where
  "last60 xs = drop (length xs - 60) xs"

definition update_fps :: "real \<Rightarrow> PerformanceMonitor \<Rightarrow> PerformanceMonitor option" where
  "update_fps current_time s =
     (case acquire s of
        None \<Rightarrow> None
      | Some s1 \<Rightarrow>
          (let s2 = s1\<lparr>frame_times := frame_times s1 @ [current_time],
                       frame_count := frame_count s1 + 1\<rparr>;
               s3 = (if length (frame_times s2) > 60
                     then s2\<lparr>frame_times := last60 (frame_times s2)\<rparr> else s2)
           in Some ((release s3)\<lparr>last_frame_time := current_time\<rparr>)))"

definition record_detection_time :: "real \<Rightarrow> PerformanceMonitor \<Rightarrow> PerformanceMonitor option" where
  "record_detection_time detection_time s =
     (case acquire s of
        None \<Rightarrow> None
      | Some s1 \<Rightarrow> Some (release (s1\<lparr>detection_count := detection_count s1 + 1\<rparr>)))"

text \<open>
  The body of \<open>get_current_fps\<close> under the lock. \<open>frame_times[-1]\<close> and
  \<open>frame_times[0]\<close> are read only when the list has two entries or more.
\<close>

definition windowed_fps :: "real list \<Rightarrow> real" where
  "windowed_fps ts =
     (if length ts < 2 then 0
      else (let time_span = last ts - hd ts
            in if time_span \<le> 0 then 0 else (real (length ts) - 1) / time_span))"

text \<open>
  \<open>get_current_fps\<close> changes nothing but the lock, which it has released when it
  returns; the model returns its value only.
\<close>

definition get_current_fps :: "PerformanceMonitor \<Rightarrow> real option" where
  "get_current_fps s =
     (case acquire s of
        None \<Rightarrow> None
      | Some s1 \<Rightarrow> Some (windowed_fps (frame_times s1)))"

text \<open>
  The dictionary \<open>{'fps': {'current': fps}, 'detection': {'total_detections': n}}\<close>.
\<close>

record summary =
  fps_current :: real
  detection_total_detections :: nat

text \<open>
  \<open>get_performance_summary\<close> takes the lock and, holding it, calls
  \<open>self.get_current_fps()\<close>, which enters \<open>with self.lock\<close> again.
\<close>

definition get_performance_summary :: "PerformanceMonitor \<Rightarrow> summary option" where
  "get_performance_summary s =
     (case acquire s of
        None \<Rightarrow> None
      | Some s1 \<Rightarrow>
          (case get_current_fps s1 of
             None \<Rightarrow> None
           | Some fps \<Rightarrow>
               Some \<lparr>fps_current = fps,
                     detection_total_detections = detection_count s1\<rparr>))"

definition get_current_metrics :: "PerformanceMonitor \<Rightarrow> summary option" where
  "get_current_metrics s = get_performance_summary s"

definition reset_stats :: "real \<Rightarrow> PerformanceMonitor \<Rightarrow> PerformanceMonitor option" where
  "reset_stats now s =
     (case acquire s of
        None \<Rightarrow> None
      | Some s1 \<Rightarrow>
          Some (release (s1\<lparr>start_time := now, frame_times := [], frame_count := 0,
                             detection_count := 0\<rparr>)))"

text \<open>One \<open>update_fps\<close> call after another, each with the time it reads.\<close>

fun update_fps_calls :: "real list \<Rightarrow> PerformanceMonitor \<Rightarrow> PerformanceMonitor option" where
  "update_fps_calls [] s = Some s"
| "update_fps_calls (t # ts) s =
     (case update_fps t s of None \<Rightarrow> None | Some s' \<Rightarrow> update_fps_calls ts s')"

section \<open>CameraManager (src/core/camera.py)\<close>

text \<open>
  What the source catches with \<open>except Exception\<close> or raises itself is a value of
  \<open>error\<close>.
\<close>

datatype error =
    RuntimeError string
  | ImportError
  | ValueError
  | IndexError
  | UnicodeDecodeError
  | cv2_error

text \<open>
  A \<open>cv2.VideoCapture\<close> object is known to the manager by what \<open>isOpened()\<close>
  answers. The device itself is outside the program: \<open>camera_driver\<close> says what the calls
  of \<open>initialize_camera\<close> meet. \<open>VideoCapture_open i\<close> is the constructor call on index
  \<open>i\<close>, which raises or gives an object that is open or not; \<open>cap_set\<close> says whether
  one of the property \<open>set\<close> calls raises; \<open>cap_read\<close> is the test read, which raises
  or returns its \<open>ret\<close> flag. The log level calls touch nothing the manager keeps.
\<close>

record VideoCapture =
  isOpened :: bool

record camera_driver =
  VideoCapture_open :: "int \<Rightarrow> error + bool"
  cap_set :: "error option"
  cap_read :: "error + bool"

text \<open>
  \<open>FPSCounter\<close>, with the clock reading of each call as an argument.
\<close>

record FPSCounter =
  fc_frame_count :: nat
  fc_start_time :: real
  fps :: real
  last_update :: real

definition FPSCounter_init :: "real \<Rightarrow> real \<Rightarrow> FPSCounter" where
  "FPSCounter_init t0 t1 =
     \<lparr>fc_frame_count = 0, fc_start_time = t0, fps = 0, last_update = t1\<rparr>"

definition FPSCounter_update :: "real \<Rightarrow> FPSCounter \<Rightarrow> FPSCounter" where
  "FPSCounter_update current_time c =
     (let c1 = c\<lparr>fc_frame_count := fc_frame_count c + 1\<rparr>
      in if current_time - last_update c1 \<ge> 1 then
           (let elapsed_time = current_time - fc_start_time c1;
                c2 = (if elapsed_time > 0
                      then c1\<lparr>fps := real (fc_frame_count c1) / elapsed_time\<rparr> else c1)
            in c2\<lparr>fc_frame_count := 0, fc_start_time := current_time,
                   last_update := current_time\<rparr>)
         else c1)"

text \<open>
  The manager: the attributes the operations below read or write. \<open>frame_queue\<close> is
  the \<open>Queue(maxsize=2)\<close>, oldest frame first; \<open>capture_thread\<close> says whether the
  thread object has been created and started.
\<close>

record ('frame, 'cb) CameraManager =
  camera_index :: int
  cap :: "VideoCapture option"
  is_running :: bool
  frame_queue :: "'frame list"
  capture_thread :: bool
  fps_counter :: FPSCounter
  frame_callback :: "'cb option"

definition CameraManager_init :: "int \<Rightarrow> real \<Rightarrow> real \<Rightarrow> ('frame, 'cb) CameraManager" where
  "CameraManager_init index t0 t1 =
     \<lparr>camera_index = index, cap = None, is_running = False, frame_queue = [],
      capture_thread = False, fps_counter = FPSCounter_init t0 t1, frame_callback = None\<rparr>"

text \<open>\<open>self.cap and self.cap.isOpened()\<close>: a capture object is kept and it is open.\<close>

definition cap_is_open :: "('frame, 'cb) CameraManager \<Rightarrow> bool" where
  "cap_is_open s = (case cap s of None \<Rightarrow> False | Some c \<Rightarrow> isOpened c)"

definition initialize_camera ::
  "camera_driver \<Rightarrow> ('frame, 'cb) CameraManager \<Rightarrow> bool \<times> ('frame, 'cb) CameraManager" where
  "initialize_camera drv s =
     (case VideoCapture_open drv (camera_index s) of
        Inl e \<Rightarrow> (False, s)
      | Inr opened \<Rightarrow>
          (let s1 = s\<lparr>cap := Some \<lparr>isOpened = opened\<rparr>\<rparr>
           in if \<not> opened then (False, s1)
              else (case cap_set drv of
                      Some e \<Rightarrow> (False, s1)
                    | None \<Rightarrow>
                        (case cap_read drv of
                           Inl e \<Rightarrow> (False, s1)
                         | Inr ret \<Rightarrow>
                             if \<not> ret
                             then (False, s1\<lparr>cap := Some \<lparr>isOpened = False\<rparr>\<rparr>)
                             else (True, s1)))))"

text \<open>
  \<open>start_capture\<close> returns nothing; the first component is the exception it raises,
  if any, the second the manager as the call leaves it.
\<close>

definition start_capture ::
  "camera_driver \<Rightarrow> 'cb option \<Rightarrow> ('frame, 'cb) CameraManager \<Rightarrow>
   error option \<times> ('frame, 'cb) CameraManager" where
  "start_capture drv callback s =
     (let started = (\<lambda>s'. s'\<lparr>frame_callback := callback, is_running := True,
                                capture_thread := True\<rparr>)
      in if \<not> cap_is_open s then
           (case initialize_camera drv s of
              (False, s') \<Rightarrow> (Some (RuntimeError ''Failed to initialize camera''), s')
            | (True, s') \<Rightarrow> (None, started s'))
         else (None, started s))"

definition stop_capture :: "('frame, 'cb) CameraManager \<Rightarrow> ('frame, 'cb) CameraManager" where
  "stop_capture s = s\<lparr>is_running := False, cap := None\<rparr>"

text \<open>
  The acquisition loop runs in its own thread until \<open>is_running\<close> is cleared by
  \<open>stop_capture\<close> from another thread. One turn of it meets a \<open>read\<close> that raises or
  returns \<open>(ret, frame)\<close>, the clock reading of the FPS counter, and a callback that
  raises or not (its exception is caught and printed). The list holds the turns up to
  the moment the flag is cleared.
\<close>

record 'frame turn =
  read :: "error + bool \<times> 'frame"
  clock :: real
  callback_raises :: bool

fun capture_loop ::
  "'frame turn list \<Rightarrow> ('frame, 'cb) CameraManager \<Rightarrow> ('frame, 'cb) CameraManager" where
  "capture_loop [] s = s"
| "capture_loop (t # ts) s =
     (if \<not> is_running s then s
      else (case read t of
              Inl e \<Rightarrow> s
            | Inr (ret, frame) \<Rightarrow>
                if \<not> ret then s
                else
                  (let s1 = s\<lparr>fps_counter := FPSCounter_update (clock t) (fps_counter s)\<rparr>;
                       s2 = (if length (frame_queue s1) = 2
                             then s1\<lparr>frame_queue := tl (frame_queue s1)\<rparr> else s1);
                       s3 = (if length (frame_queue s2) < 2
                             then s2\<lparr>frame_queue := frame_queue s2 @ [frame]\<rparr> else s2)
                   in capture_loop ts s3)))"

section \<open>OpenCVDetector (src/core/opencv_detector.py)\<close>

text \<open>
  An image is its rows of pixels. \<open>image[y:y+h, x:x+w]\<close> slices rows and columns as
  Python slices do: a negative bound counts from the end and every bound is clipped to
  the length.
\<close>

type_synonym 'px image = "'px list list"

definition py_slice :: "int \<Rightarrow> int \<Rightarrow> 'a list \<Rightarrow> 'a list" where
  "py_slice a b xs =
     (let n = int (length xs);
          lo = (if a < 0 then max (a + n) 0 else min a n);
          hi = (if b < 0 then max (b + n) 0 else min b n)
      in take (nat (hi - lo)) (drop (nat lo) xs))"

definition crop :: "'px image \<Rightarrow> region \<Rightarrow> 'px image" where
  "crop im r =
     (case r of (x, y, w, h) \<Rightarrow> map (py_slice x (x + w)) (py_slice y (y + h) im))"

record DetectionResult =
  data :: string
  type :: string
  rect :: region
  polygon :: "point list"
  confidence :: real
  detection_time :: real

text \<open>
  The decoders are outside the program. \<open>detectAndDecode\<close> raises or returns the payload
  and \<open>points\<close>, which is \<open>None\<close> or an array of quadrangles; \<open>detectAndDecodeMulti\<close>
  raises or returns \<open>success\<close>, the payloads and one quadrangle for each;
  \<open>pyzbar_decode\<close> is the import of pyzbar followed by \<open>pyzbar.decode\<close>, which raise
  (\<open>ImportError\<close> when the package is missing) or return the decoded symbols. Corner
  coordinates of the OpenCV decoders are floating point numbers, taken as reals here.
  \<open>bc_data\<close> is the outcome of \<open>barcode.data.decode("utf-8")\<close>: the text, or \<open>None\<close> when
  the bytes are not UTF-8 and the call raises.
\<close>

record barcode =
  bc_data :: "string option"
  bc_type :: string
  bc_rect :: region
  bc_polygon :: "point list"

record 'px backends =
  detectAndDecode :: "'px image \<Rightarrow> error + string \<times> (real \<times> real) list list option"
  detectAndDecodeMulti ::
    "'px image \<Rightarrow> error + bool \<times> string list \<times> (real \<times> real) list list"
  pyzbar_decode :: "'px image \<Rightarrow> error + barcode list"

text \<open>\<open>int(v)\<close> of a float: truncation towards zero.\<close>

definition py_int :: "real \<Rightarrow> int" where
  "py_int v = (if 0 \<le> v then \<lfloor>v\<rfloor> else \<lceil>v\<rceil>)"

text \<open>
  \<open>str.strip()\<close> removes white space at both ends. A character of \<open>string\<close> stands for
  the code point of its number, below 256; the white space of Python among those code
  points is 9 to 13, 28 to 32, 133 and 160. The white space above 255 has no character
  in \<open>string\<close>.
\<close>

definition py_isspace :: "char \<Rightarrow> bool" where
  "py_isspace c =
     (let n = (of_char c :: nat)
      in (9 \<le> n \<and> n \<le> 13) \<or> (28 \<le> n \<and> n \<le> 32) \<or> n = 133 \<or> n = 160)"

definition py_strip :: "string \<Rightarrow> string" where
  "py_strip s = rev (dropWhile py_isspace (rev (dropWhile py_isspace s)))"

text \<open>\<open>any(r.data == data for r in results)\<close>\<close>

definition any_data :: "string \<Rightarrow> DetectionResult list \<Rightarrow> bool" where
  "any_data d results = list_ex (\<lambda>r. data r = d) results"

definition offset_polygon :: "(real \<times> real) list \<Rightarrow> point \<Rightarrow> point list" where
  "offset_polygon pts roi_offset =
     map (\<lambda>p. (py_int (fst p) + fst roi_offset, py_int (snd p) + snd roi_offset)) pts"

text \<open>
  The rectangle around a polygon; \<open>min\<close> and \<open>max\<close> of an empty list raise
  \<open>ValueError\<close>.
\<close>

definition bounding_rect :: "point list \<Rightarrow> error + region" where
  "bounding_rect pg =
     (case pg of
        [] \<Rightarrow> Inl ValueError
      | p # ps \<Rightarrow>
          (let x = fold min (map fst ps) (fst p);
               y = fold min (map snd ps) (snd p);
               w = fold max (map fst ps) (fst p) - x;
               h = fold max (map snd ps) (snd p) - y
           in Inr (x, y, w, h)))"

text \<open>
  The clock: \<open>clk k\<close> is what the \<open>k\<close>-th \<open>time.time()\<close> of one \<open>detect_codes\<close>
  call returns, \<open>clk 0\<close> being \<open>start_time\<close>. The state of a call is the list of results
  so far and the number of clock readings made.
\<close>

type_synonym det_state = "DetectionResult list \<times> nat"

definition qr_result ::
  "string \<Rightarrow> (real \<times> real) list \<Rightarrow> point \<Rightarrow> (nat \<Rightarrow> real) \<Rightarrow> nat \<Rightarrow> error + DetectionResult" where
  "qr_result d pts roi_offset clk k =
     (let pg = offset_polygon pts roi_offset
      in case bounding_rect pg of
           Inl e \<Rightarrow> Inl e
         | Inr r \<Rightarrow>
             Inr \<lparr>data = d, type = ''QRCODE'', rect = r, polygon = pg,
                  confidence = 9 / 10, detection_time = clk k - clk 0\<rparr>)"

text \<open>
  The single decoder. \<open>points[0]\<close> of an empty array raises \<open>IndexError\<close>. An error
  leaves the \<open>try\<close> block with the results as they are.
\<close>

definition single_qr ::
  "'px backends \<Rightarrow> 'px image \<Rightarrow> point \<Rightarrow> (nat \<Rightarrow> real) \<Rightarrow> det_state \<Rightarrow> error + det_state" where
  "single_qr b img roi_offset clk st =
     (case detectAndDecode b img of
        Inl e \<Rightarrow> Inl e
      | Inr (d, points) \<Rightarrow>
          (case points of
             None \<Rightarrow> Inr st
           | Some quads \<Rightarrow>
               if d = [] then Inr st
               else (case quads of
                       [] \<Rightarrow> Inl IndexError
                     | q # _ \<Rightarrow>
                         (case qr_result d q roi_offset clk (snd st) of
                            Inl e \<Rightarrow> Inl e
                          | Inr r \<Rightarrow> Inr (fst st @ [r], Suc (snd st))))))"

fun multi_loop ::
  "(string \<times> (real \<times> real) list) list \<Rightarrow> point \<Rightarrow> (nat \<Rightarrow> real) \<Rightarrow> det_state \<Rightarrow> det_state" where
  "multi_loop [] roi_offset clk st = st"
| "multi_loop ((d, pts) # rest) roi_offset clk (results, k) =
     (if d \<noteq> [] \<and> length (py_strip d) > 0 then
        (if any_data d results then multi_loop rest roi_offset clk (results, k)
         else (case qr_result d pts roi_offset clk k of
                 Inl e \<Rightarrow> (results, k)
               | Inr r \<Rightarrow> multi_loop rest roi_offset clk (results @ [r], Suc k)))
      else multi_loop rest roi_offset clk (results, k))"

definition qr_block ::
  "'px backends \<Rightarrow> 'px image \<Rightarrow> point \<Rightarrow> (nat \<Rightarrow> real) \<Rightarrow> det_state \<Rightarrow> det_state" where
  "qr_block b img roi_offset clk st =
     (case single_qr b img roi_offset clk st of
        Inl e \<Rightarrow> st
      | Inr st1 \<Rightarrow>
          (case detectAndDecodeMulti b img of
             Inl e \<Rightarrow> st1
           | Inr (success, decoded_info, points_array) \<Rightarrow>
               if success then multi_loop (zip decoded_info points_array) roi_offset clk st1
               else st1))"

definition barcode_result :: "barcode \<Rightarrow> string \<Rightarrow> real \<Rightarrow> DetectionResult" where
  "barcode_result bc barcode_data dt =
     (case bc_rect bc of
        (x, y, w, h) \<Rightarrow>
          \<lparr>data = barcode_data, type = bc_type bc, rect = (x, y, w, h),
           polygon = (if bc_polygon bc \<noteq> [] then bc_polygon bc
                      else [(x, y), (x + w, y), (x + w, y + h), (x, y + h)]),
           confidence = 9 / 10, detection_time = dt\<rparr>)"

fun barcode_loop :: "barcode list \<Rightarrow> (nat \<Rightarrow> real) \<Rightarrow> det_state \<Rightarrow> det_state" where
  "barcode_loop [] clk st = st"
| "barcode_loop (bc # rest) clk (results, k) =
     (case bc_data bc of
        None \<Rightarrow> (results, k)
      | Some barcode_data \<Rightarrow>
          (let dt = clk k - clk 0
           in if \<not> any_data barcode_data results
              then barcode_loop rest clk (results @ [barcode_result bc barcode_data dt], Suc k)
              else barcode_loop rest clk (results, Suc k)))"

definition barcode_block ::
  "'px backends \<Rightarrow> 'px image \<Rightarrow> (nat \<Rightarrow> real) \<Rightarrow> det_state \<Rightarrow> det_state" where
  "barcode_block b img clk st =
     (case pyzbar_decode b img of
        Inl e \<Rightarrow> st
      | Inr barcodes \<Rightarrow> barcode_loop barcodes clk st)"

text \<open>
  \<open>detect_codes\<close> returns the batch and appends it to \<open>detection_history\<close>, the second
  component; \<open>im\<close> is the parameter \<open>image\<close>, \<open>r\<close> the parameter \<open>roi\<close>. A region, a
  tuple of four numbers, is truthy whatever it holds.
\<close>

definition sub_image :: "'px image \<Rightarrow> region option \<Rightarrow> 'px image" where
  "sub_image im r = (case r of None \<Rightarrow> im | Some rg \<Rightarrow> crop im rg)"

definition roi_origin :: "region option \<Rightarrow> point" where
  "roi_origin r = (case r of None \<Rightarrow> (0, 0) | Some (x, y, w, h) \<Rightarrow> (x, y))"

definition detect_codes ::
  "'px backends \<Rightarrow> (nat \<Rightarrow> real) \<Rightarrow> DetectionResult list \<Rightarrow> 'px image \<Rightarrow> region option \<Rightarrow>
   DetectionResult list \<times> DetectionResult list" where
  "detect_codes b clk detection_history im r =
     (let img = sub_image im r;
          roi_offset = roi_origin r;
          st1 = qr_block b img roi_offset clk ([], 1);
          st2 = barcode_block b img clk st1
      in (fst st2, detection_history @ fst st2))"

section \<open>Properties of ROISelector\<close>

lemmas mouse_events = EVENT_MOUSEMOVE_def EVENT_LBUTTONDOWN_def EVENT_LBUTTONUP_def

lemma pointer_moves_start_point:
  "start_point (pointer_moves ps s) = start_point s"
proof (induction ps arbitrary: s)
  case Nil
  show ?case by simp
next
  case (Cons p ps)
  obtain x y where p: "p = (x, y)" by (cases p)
  show ?case
    by (simp add: p Cons.IH mouse_callback_def mouse_events)
qed

lemma pointer_up_roi:
  "start_point s = Some (x1, y1) \<Longrightarrow>
   roi (mouse_callback EVENT_LBUTTONUP x2 y2 s) =
     Some (min x1 x2, min y1 y2, \<bar>x2 - x1\<bar>, \<bar>y2 - y1\<bar>)"
  by (simp add: mouse_callback_def mouse_events)

lemma drag_roi:
  "roi (mouse_callback EVENT_LBUTTONUP x2 y2
         (pointer_moves ps (mouse_callback EVENT_LBUTTONDOWN x1 y1 s))) =
     Some (min x1 x2, min y1 y2, \<bar>x2 - x1\<bar>, \<bar>y2 - y1\<bar>)"
proof -
  have "start_point (pointer_moves ps (mouse_callback EVENT_LBUTTONDOWN x1 y1 s)) =
          Some (x1, y1)"
    by (simp add: pointer_moves_start_point mouse_callback_def mouse_events)
  then show ?thesis by (rule pointer_up_roi)
qed

text \<open>
  C6. A drag is a pointer-down at \<open>(x1, y1)\<close>, any number of pointer-moves, and a
  pointer-up at \<open>(x2, y2)\<close>, from any state of the selector. The Region it commits is
  \<open>(min x1 x2, min y1 y2, |x2 - x1|, |y2 - y1|)\<close>; its width and height are not negative;
  the drag from \<open>(x2, y2)\<close> to \<open>(x1, y1)\<close> commits the same Region; and dragging
  \<open>(50, 50)\<close> to \<open>(10, 10)\<close> or \<open>(10, 10)\<close> to \<open>(50, 50)\<close> commits \<open>(10, 10, 40, 40)\<close>.
\<close>

theorem roi_of_drag:
  "get_roi (mouse_callback EVENT_LBUTTONUP x2 y2
             (pointer_moves ps (mouse_callback EVENT_LBUTTONDOWN x1 y1 s))) =
     Some (min x1 x2, min y1 y2, \<bar>x2 - x1\<bar>, \<bar>y2 - y1\<bar>)
   \<and> 0 \<le> \<bar>x2 - x1\<bar> \<and> 0 \<le> \<bar>y2 - y1\<bar>
   \<and> get_roi (mouse_callback EVENT_LBUTTONUP x1 y1
                (pointer_moves qs (mouse_callback EVENT_LBUTTONDOWN x2 y2 s'))) =
       get_roi (mouse_callback EVENT_LBUTTONUP x2 y2
                (pointer_moves ps (mouse_callback EVENT_LBUTTONDOWN x1 y1 s)))
   \<and> get_roi (mouse_callback EVENT_LBUTTONUP 10 10
                (pointer_moves ps (mouse_callback EVENT_LBUTTONDOWN 50 50 s))) =
       Some (10, 10, 40, 40)
   \<and> get_roi (mouse_callback EVENT_LBUTTONUP 50 50
                (pointer_moves ps (mouse_callback EVENT_LBUTTONDOWN 10 10 s))) =
       Some (10, 10, 40, 40)"
proof -
  have swap: "min x2 x1 = min x1 x2" "min y2 y1 = min y1 y2"
    "\<bar>x1 - x2\<bar> = \<bar>x2 - x1\<bar>" "\<bar>y1 - y2\<bar> = \<bar>y2 - y1\<bar>"
    by (simp_all add: min.commute abs_minus_commute)
  show ?thesis
    unfolding get_roi_def drag_roi by (simp add: swap)
qed

text \<open>
  C10. A pointer-up at \<open>(x, y)\<close> that reaches a selector with no anchor point returns
  (the model is a total function and has no failing branch there), records \<open>(x, y)\<close> as
  the live end point, clears the selecting flag and leaves everything else as it was:
  the committed Region is untouched, so it stays absent when it was absent.
\<close>

theorem pointer_up_without_anchor:
  "start_point s = None \<Longrightarrow>
   mouse_callback EVENT_LBUTTONUP x y s = s\<lparr>end_point := Some (x, y), selecting := False\<rparr>
   \<and> get_roi (mouse_callback EVENT_LBUTTONUP x y s) = get_roi s
   \<and> (get_roi s = None \<longrightarrow> get_roi (mouse_callback EVENT_LBUTTONUP x y s) = None)
   \<and> end_point (mouse_callback EVENT_LBUTTONUP x y s) = Some (x, y)
   \<and> selecting (mouse_callback EVENT_LBUTTONUP x y s) = False"
  by (simp add: mouse_callback_def get_roi_def mouse_events)

theorem pointer_up_without_anchor_witness:
  "start_point ROISelector_init = None
   \<and> get_roi ROISelector_init = None
   \<and> mouse_callback EVENT_LBUTTONUP 7 9 ROISelector_init =
       \<lparr>start_point = None, end_point = Some (7, 9), selecting = False, roi = None\<rparr>
   \<and> get_roi (mouse_callback EVENT_LBUTTONUP 7 9 ROISelector_init) = None"
proof -
  have h: "start_point ROISelector_init = None"
    by (simp add: ROISelector_init_def)
  have r: "get_roi ROISelector_init = None"
    by (simp add: ROISelector_init_def get_roi_def)
  from pointer_up_without_anchor [OF h, of 7 9]
  show ?thesis using h r by (simp add: ROISelector_init_def get_roi_def)
qed

section \<open>Properties of PerformanceMonitor\<close>

lemma last60_short: "length xs \<le> 60 \<Longrightarrow> last60 xs = xs"
  by (simp add: last60_def)

lemma length_last60: "length (last60 xs) \<le> 60"
  by (simp add: last60_def)

lemma last60_append_last60: "last60 (last60 xs @ ys) = last60 (xs @ ys)"
proof (cases "length xs \<le> 60")
  case True
  then show ?thesis by (simp add: last60_short)
next
  case False
  then have "length xs + length ys - (length xs - 60 + 60) + (length xs - 60) =
      length xs + length ys - 60"
    by arith
  then show ?thesis by (simp add: last60_def)
qed

lemma update_fps_unlocked:
  "\<not> lock s \<Longrightarrow>
   update_fps t s =
     Some (s\<lparr>frame_times := last60 (frame_times s @ [t]),
             frame_count := frame_count s + 1, last_frame_time := t\<rparr>)"
  by (simp add: update_fps_def acquire_def release_def Let_def last60_short)

lemma update_fps_calls_unlocked:
  "\<not> lock s \<Longrightarrow>
   \<exists>s'. update_fps_calls ts s = Some s' \<and> \<not> lock s'
     \<and> frame_count s' = frame_count s + length ts
     \<and> detection_count s' = detection_count s
     \<and> monitoring s' = monitoring s
     \<and> (ts \<noteq> [] \<longrightarrow> frame_times s' = last60 (frame_times s @ ts))
     \<and> (ts = [] \<longrightarrow> frame_times s' = frame_times s)"
proof (induction ts arbitrary: s)
  case Nil
  then show ?case by simp
next
  case (Cons t ts)
  let ?s1 = "s\<lparr>frame_times := last60 (frame_times s @ [t]),
             frame_count := frame_count s + 1, last_frame_time := t\<rparr>"
  have u: "update_fps t s = Some ?s1" using Cons.prems by (rule update_fps_unlocked)
  have "\<not> lock ?s1" using Cons.prems by simp
  from Cons.IH [OF this] obtain s' where
    s': "update_fps_calls ts ?s1 = Some s'" "\<not> lock s'"
      "frame_count s' = frame_count ?s1 + length ts"
      "detection_count s' = detection_count ?s1"
      "monitoring s' = monitoring ?s1"
      "ts \<noteq> [] \<longrightarrow> frame_times s' = last60 (frame_times ?s1 @ ts)"
      "ts = [] \<longrightarrow> frame_times s' = frame_times ?s1"
    by blast
  have ft: "frame_times s' = last60 (frame_times s @ t # ts)"
  proof (cases "ts = []")
    case True
    with s'(7) show ?thesis by simp
  next
    case False
    with s'(6) have "frame_times s' = last60 (last60 (frame_times s @ [t]) @ ts)" by simp
    then show ?thesis by (simp add: last60_append_last60)
  qed
  show ?case using u s' ft by simp
qed

lemma get_current_fps_unlocked:
  "\<not> lock s \<Longrightarrow> get_current_fps s = Some (windowed_fps (frame_times s))"
  by (simp add: get_current_fps_def acquire_def)

lemma get_performance_summary_None: "get_performance_summary s = None"
  by (simp add: get_performance_summary_def get_current_fps_def acquire_def)


text \<open>
  C8. \<open>update_fps\<close>, called with the lock free, returns; the window it leaves holds at
  most 60 time stamps, namely the last 60 of the old window followed by the new time
  stamp, so the oldest entries are the ones dropped; the frame counter has grown by
  exactly one. After any sequence of calls the counter has grown by the number of calls
  and the window holds the last 60 of all time stamps.
\<close>

theorem update_fps_window_and_count:
  "\<not> lock s \<Longrightarrow>
   (\<exists>s'. update_fps t s = Some s'
      \<and> length (frame_times s') \<le> 60
      \<and> frame_times s' = last60 (frame_times s @ [t])
      \<and> frame_count s' = frame_count s + 1
      \<and> \<not> lock s')
   \<and> (\<exists>s'. update_fps_calls ts s = Some s'
      \<and> frame_count s' = frame_count s + length ts
      \<and> (ts \<noteq> [] \<longrightarrow>
           length (frame_times s') \<le> 60 \<and> frame_times s' = last60 (frame_times s @ ts)))"
proof -
  assume free: "\<not> lock s"
  have one: "\<exists>s'. update_fps t s = Some s'
      \<and> length (frame_times s') \<le> 60
      \<and> frame_times s' = last60 (frame_times s @ [t])
      \<and> frame_count s' = frame_count s + 1
      \<and> \<not> lock s'"
    using free by (simp add: update_fps_unlocked length_last60)
  from update_fps_calls_unlocked [OF free, of ts] obtain s' where
    s': "update_fps_calls ts s = Some s'" "frame_count s' = frame_count s + length ts"
      "ts \<noteq> [] \<longrightarrow> frame_times s' = last60 (frame_times s @ ts)"
    by blast
  have "ts \<noteq> [] \<longrightarrow>
      length (frame_times s') \<le> 60 \<and> frame_times s' = last60 (frame_times s @ ts)"
    using s'(3) by (simp add: length_last60)
  with s'(1,2) one show ?thesis by blast
qed

theorem update_fps_window_and_count_witness:
  "\<not> lock (PerformanceMonitor_init 0 0\<lparr>frame_times := replicate 60 1, frame_count := 60\<rparr>)
   \<and> update_fps 2 (PerformanceMonitor_init 0 0\<lparr>frame_times := replicate 60 1, frame_count := 60\<rparr>) =
       Some (PerformanceMonitor_init 0 2\<lparr>frame_times := replicate 59 1 @ [2], frame_count := 61\<rparr>)
   \<and> (\<exists>s'. update_fps_calls [2, 3] (PerformanceMonitor_init 0 0) = Some s'
         \<and> frame_count s' = 2 \<and> frame_times s' = [2, 3])"
proof -
  let ?s = "PerformanceMonitor_init 0 0\<lparr>frame_times := replicate 60 1, frame_count := 60\<rparr>"
  have free: "\<not> lock ?s" by (simp add: PerformanceMonitor_init_def)
  have free0: "\<not> lock (PerformanceMonitor_init 0 0)" by (simp add: PerformanceMonitor_init_def)
  have a: "update_fps 2 ?s =
       Some (PerformanceMonitor_init 0 2\<lparr>frame_times := replicate 59 1 @ [2], frame_count := 61\<rparr>)"
    using update_fps_window_and_count [OF free, of 2 "[]"]
    by (auto simp add: PerformanceMonitor_init_def update_fps_def acquire_def release_def
        last60_def Let_def)
  have b: "\<exists>s'. update_fps_calls [2, 3] (PerformanceMonitor_init 0 0) = Some s'
         \<and> frame_count s' = 2 \<and> frame_times s' = [2, 3]"
    using update_fps_window_and_count [OF free0, of 2 "[2, 3]"]
    by (auto simp add: PerformanceMonitor_init_def last60_def)
  from free a b show ?thesis by blast
qed

lemma windowed_fps_sixty:
  "windowed_fps (map (\<lambda>k. t0 + real k / 10) [0..<60]) = 10"
proof -
  have "hd (map (\<lambda>k. t0 + real k / 10) [0..<60]) = t0"
    by (simp add: hd_map)
  moreover have "last (map (\<lambda>k. t0 + real k / 10) [0..<60]) = t0 + 59 / 10"
    by (simp add: last_map)
  ultimately show ?thesis
    by (simp add: windowed_fps_def Let_def)
qed

text \<open>
  C7. \<open>get_current_fps\<close>, called with the lock free, returns
  \<open>(n - 1) / (newest - oldest)\<close> when the window holds \<open>n \<ge> 2\<close> time stamps and the newest
  is later than the oldest, and \<open>0\<close> when it holds fewer than two. After 60
  \<open>update_fps\<close> calls on a new monitor at times \<open>t0, t0 + 0.1, ..., t0 + 5.9\<close> it returns
  \<open>10\<close>.
\<close>

theorem current_fps_windowed:
  "\<not> lock s \<Longrightarrow>
   (2 \<le> length (frame_times s) \<and> hd (frame_times s) < last (frame_times s) \<longrightarrow>
      get_current_fps s =
        Some ((real (length (frame_times s)) - 1) / (last (frame_times s) - hd (frame_times s))))
   \<and> (length (frame_times s) < 2 \<longrightarrow> get_current_fps s = Some 0)
   \<and> (\<exists>s'. update_fps_calls (map (\<lambda>k. t0 + real k / 10) [0..<60])
               (PerformanceMonitor_init a b) = Some s'
         \<and> get_current_fps s' = Some 10)"
proof -
  assume free: "\<not> lock s"
  have free0: "\<not> lock (PerformanceMonitor_init a b)"
    by (simp add: PerformanceMonitor_init_def)
  let ?ts = "map (\<lambda>k. t0 + real k / 10) [0..<60]"
  from update_fps_calls_unlocked [OF free0, of ?ts] obtain s' where
    s': "update_fps_calls ?ts (PerformanceMonitor_init a b) = Some s'" "\<not> lock s'"
      "frame_times s' = last60 (frame_times (PerformanceMonitor_init a b) @ ?ts)"
    by auto
  have "frame_times s' = ?ts"
    using s'(3) by (simp add: PerformanceMonitor_init_def last60_short)
  then have "get_current_fps s' = Some 10"
    using s'(2) by (simp add: get_current_fps_unlocked windowed_fps_sixty)
  with s'(1) have ex: "\<exists>s'. update_fps_calls ?ts (PerformanceMonitor_init a b) = Some s'
         \<and> get_current_fps s' = Some 10"
    by blast
  have "2 \<le> length (frame_times s) \<and> hd (frame_times s) < last (frame_times s) \<longrightarrow>
      get_current_fps s =
        Some ((real (length (frame_times s)) - 1) / (last (frame_times s) - hd (frame_times s)))"
    using free by (simp add: get_current_fps_unlocked windowed_fps_def Let_def)
  moreover have "length (frame_times s) < 2 \<longrightarrow> get_current_fps s = Some 0"
    using free by (simp add: get_current_fps_unlocked windowed_fps_def)
  ultimately show ?thesis using ex by blast
qed

theorem current_fps_windowed_witness:
  "\<not> lock (PerformanceMonitor_init 0 0\<lparr>frame_times := [1, 2, 5]\<rparr>)
   \<and> get_current_fps (PerformanceMonitor_init 0 0\<lparr>frame_times := [1, 2, 5]\<rparr>) = Some (1 / 2)
   \<and> get_current_fps (PerformanceMonitor_init 0 0\<lparr>frame_times := [1]\<rparr>) = Some 0"
proof -
  let ?s = "PerformanceMonitor_init 0 0\<lparr>frame_times := [1, 2, 5]\<rparr>"
  let ?u = "PerformanceMonitor_init 0 0\<lparr>frame_times := [1]\<rparr>"
  have free: "\<not> lock ?s" by (simp add: PerformanceMonitor_init_def)
  have freeu: "\<not> lock ?u" by (simp add: PerformanceMonitor_init_def)
  have "get_current_fps ?s = Some (1 / 2)"
    using current_fps_windowed [OF free, of 0 0 0] by (simp add: PerformanceMonitor_init_def)
  moreover have "get_current_fps ?u = Some 0"
    using current_fps_windowed [OF freeu, of 0 0 0] by (simp add: PerformanceMonitor_init_def)
  ultimately show ?thesis using free by blast
qed

text \<open>
  C9. \<open>reset_stats\<close>, called with the lock free, returns; it leaves an empty window,
  a frame counter and a detection counter of zero, and the monitoring flag as it was.
\<close>

theorem reset_stats_clears:
  "\<not> lock s \<Longrightarrow>
   (\<exists>s'. reset_stats now s = Some s'
      \<and> frame_times s' = [] \<and> frame_count s' = 0 \<and> detection_count s' = 0
      \<and> monitoring s' = monitoring s \<and> \<not> lock s')"
  by (simp add: reset_stats_def acquire_def release_def)

theorem reset_stats_clears_witness:
  "\<not> lock (PerformanceMonitor_init 0 0\<lparr>frame_times := [1, 2], frame_count := 2,
              detection_count := 3, monitoring := True\<rparr>)
   \<and> reset_stats 9 (PerformanceMonitor_init 0 0\<lparr>frame_times := [1, 2], frame_count := 2,
              detection_count := 3, monitoring := True\<rparr>) =
       Some (PerformanceMonitor_init 9 0\<lparr>monitoring := True\<rparr>)"
proof -
  let ?s = "PerformanceMonitor_init 0 0\<lparr>frame_times := [1, 2], frame_count := 2,
              detection_count := 3, monitoring := True\<rparr>"
  have free: "\<not> lock ?s" by (simp add: PerformanceMonitor_init_def)
  from reset_stats_clears [OF free, of 9] obtain s' where
    "reset_stats 9 ?s = Some s'" "monitoring s' = monitoring ?s" by blast
  then show ?thesis
    using free
    by (auto simp add: reset_stats_def acquire_def release_def PerformanceMonitor_init_def)
qed

text \<open>
  C3 on a new monitor. \<open>get_current_fps\<close> called by itself returns, with \<open>0\<close> for the
  empty window. \<open>get_performance_summary\<close> does not return: it holds the lock when it
  calls \<open>get_current_fps\<close>, which waits for the same lock, so the summary the claim
  asks for is never handed back.
\<close>

theorem get_performance_summary_no_return:
  "get_current_fps (PerformanceMonitor_init 0 0) = Some 0
   \<and> get_performance_summary (PerformanceMonitor_init 0 0) = None"
  by (simp add: get_performance_summary_None get_current_fps_def acquire_def
      windowed_fps_def PerformanceMonitor_init_def)

section \<open>Properties of CameraManager\<close>

lemma initialize_camera_ok_iff:
  "fst (initialize_camera drv s) \<longleftrightarrow>
     VideoCapture_open drv (camera_index s) = Inr True \<and> cap_set drv = None
     \<and> cap_read drv = Inr True"
  by (auto simp add: initialize_camera_def Let_def split: sum.splits option.splits)

text \<open>
  C4, as stated, fails: on device index \<open>-1\<close>, which does not open, \<open>initialize_camera\<close>
  returns \<open>False\<close> and the manager still holds the capture object in \<open>cap\<close>.
\<close>

theorem initialize_camera_open_failure_keeps_handle:
  "fst (initialize_camera
      \<lparr>VideoCapture_open = (\<lambda>i. Inr (0 \<le> i)), cap_set = None, cap_read = Inr True\<rparr>
      (CameraManager_init (- 1) 0 0 :: (unit, unit) CameraManager)) = False
   \<and> cap (snd (initialize_camera
      \<lparr>VideoCapture_open = (\<lambda>i. Inr (0 \<le> i)), cap_set = None, cap_read = Inr True\<rparr>
      (CameraManager_init (- 1) 0 0 :: (unit, unit) CameraManager))) \<noteq> None"
  by (simp add: initialize_camera_def CameraManager_init_def)

text \<open>
  C4, amended. When the capture object does not open, or it opens, the properties are
  set and the test read returns failure, \<open>initialize_camera\<close> returns \<open>False\<close> and leaves
  the manager with a capture object that is not open (released after the failed read):
  the component is not initialized, and the closed capture object stays in \<open>cap\<close>.
\<close>

theorem initialize_camera_failure:
  "VideoCapture_open drv (camera_index s) = Inr False
   \<or> (VideoCapture_open drv (camera_index s) = Inr True \<and> cap_set drv = None
       \<and> cap_read drv = Inr False) \<Longrightarrow>
   initialize_camera drv s = (False, s\<lparr>cap := Some \<lparr>isOpened = False\<rparr>\<rparr>)
   \<and> \<not> cap_is_open (snd (initialize_camera drv s))
   \<and> cap (snd (initialize_camera drv s)) = Some \<lparr>isOpened = False\<rparr>"
  by (auto simp add: initialize_camera_def cap_is_open_def Let_def)

theorem initialize_camera_failure_witness:
  "initialize_camera
      \<lparr>VideoCapture_open = (\<lambda>i. Inr (0 \<le> i)), cap_set = None, cap_read = Inr False\<rparr>
      (CameraManager_init (- 1) 0 0 :: (unit, unit) CameraManager) =
     (False, CameraManager_init (- 1) 0 0\<lparr>cap := Some \<lparr>isOpened = False\<rparr>\<rparr>)
   \<and> initialize_camera
      \<lparr>VideoCapture_open = (\<lambda>i. Inr (0 \<le> i)), cap_set = None, cap_read = Inr False\<rparr>
      (CameraManager_init 0 0 0 :: (unit, unit) CameraManager) =
     (False, CameraManager_init 0 0 0\<lparr>cap := Some \<lparr>isOpened = False\<rparr>\<rparr>)"
  using
    initialize_camera_failure [of
      "\<lparr>VideoCapture_open = (\<lambda>i. Inr (0 \<le> i)), cap_set = None, cap_read = Inr False\<rparr>"
      "CameraManager_init (- 1) 0 0 :: (unit, unit) CameraManager"]
    initialize_camera_failure [of
      "\<lparr>VideoCapture_open = (\<lambda>i. Inr (0 \<le> i)), cap_set = None, cap_read = Inr False\<rparr>"
      "CameraManager_init 0 0 0 :: (unit, unit) CameraManager"]
  by (simp add: CameraManager_init_def)

text \<open>
  C5, as stated, fails: \<open>start_capture\<close> on a new manager for device index \<open>-1\<close>, which
  does not open, raises \<open>RuntimeError\<close>.
\<close>

theorem start_capture_raises:
  "fst (start_capture
      \<lparr>VideoCapture_open = (\<lambda>i. Inr (0 \<le> i)), cap_set = None, cap_read = Inr True\<rparr>
      (None :: unit option)
      (CameraManager_init (- 1) 0 0 :: (unit, unit) CameraManager)) =
     Some (RuntimeError ''Failed to initialize camera'')"
  by (simp add: start_capture_def initialize_camera_def cap_is_open_def CameraManager_init_def)

text \<open>
  C5, amended. When the device is not open and its initialisation fails,
  \<open>initialize_camera\<close> reports it as \<open>False\<close>, and \<open>start_capture\<close> raises
  \<open>RuntimeError('Failed to initialize camera')\<close> to its caller. The manager is then as
  \<open>initialize_camera\<close> left it: the call has not set \<open>is_running\<close>, has started no
  thread and has not stored the callback, so the running flag, the thread and the
  callback are what they were before the call. A read that raises or returns failure
  in the acquisition loop ends the loop, with the manager as it was and nothing raised.
\<close>

theorem device_failures_surfaced:
  "(\<not> cap_is_open s
      \<and> \<not> (VideoCapture_open drv (camera_index s) = Inr True \<and> cap_set drv = None
            \<and> cap_read drv = Inr True)
     \<longrightarrow> fst (initialize_camera drv s) = False
         \<and> start_capture drv cb s =
             (Some (RuntimeError ''Failed to initialize camera''), snd (initialize_camera drv s))
         \<and> is_running (snd (start_capture drv cb s)) = is_running s
         \<and> capture_thread (snd (start_capture drv cb s)) = capture_thread s
         \<and> frame_callback (snd (start_capture drv cb s)) = frame_callback s)
   \<and> ((\<exists>e. read t = Inl e) \<or> (\<exists>f. read t = Inr (False, f))
     \<longrightarrow> capture_loop (t # ts) s = s)"
proof -
  have a: "fst (initialize_camera drv s) = False
         \<and> start_capture drv cb s =
             (Some (RuntimeError ''Failed to initialize camera''), snd (initialize_camera drv s))
         \<and> is_running (snd (start_capture drv cb s)) = is_running s
         \<and> capture_thread (snd (start_capture drv cb s)) = capture_thread s
         \<and> frame_callback (snd (start_capture drv cb s)) = frame_callback s"
    if closed: "\<not> cap_is_open s"
      and bad: "\<not> (VideoCapture_open drv (camera_index s) = Inr True \<and> cap_set drv = None
            \<and> cap_read drv = Inr True)"
  proof -
    from bad have f: "fst (initialize_camera drv s) = False"
      by (simp add: initialize_camera_ok_iff)
    then obtain s' where i: "initialize_camera drv s = (False, s')"
      by (cases "initialize_camera drv s") auto
    have keep: "is_running s' = is_running s" "capture_thread s' = capture_thread s"
      "frame_callback s' = frame_callback s"
      using i by (auto simp add: initialize_camera_def Let_def
          split: sum.splits option.splits if_splits)
    show ?thesis using closed i keep by (simp add: start_capture_def)
  qed
  have b: "capture_loop (t # ts) s = s"
    if "(\<exists>e. read t = Inl e) \<or> (\<exists>f. read t = Inr (False, f))"
    using that by auto
  from a b show ?thesis by blast
qed

theorem device_failures_surfaced_witness:
  "start_capture
      \<lparr>VideoCapture_open = (\<lambda>i. Inr (0 \<le> i)), cap_set = None, cap_read = Inr False\<rparr>
      (None :: unit option)
      (CameraManager_init (- 1) 0 0 :: (unit, unit) CameraManager) =
     (Some (RuntimeError ''Failed to initialize camera''),
      CameraManager_init (- 1) 0 0\<lparr>cap := Some \<lparr>isOpened = False\<rparr>\<rparr>)
   \<and> start_capture
      \<lparr>VideoCapture_open = (\<lambda>i. Inr (0 \<le> i)), cap_set = None, cap_read = Inr False\<rparr>
      (Some ())
      ((CameraManager_init 0 0 0 :: (unit, unit) CameraManager)
         \<lparr>cap := Some \<lparr>isOpened = False\<rparr>, is_running := True, capture_thread := True\<rparr>) =
     (Some (RuntimeError ''Failed to initialize camera''),
      (CameraManager_init 0 0 0)
         \<lparr>cap := Some \<lparr>isOpened = False\<rparr>, is_running := True, capture_thread := True\<rparr>)
   \<and> capture_loop
       [\<lparr>read = Inr (False, ()), clock = 1, callback_raises = False\<rparr>,
        \<lparr>read = Inr (True, ()), clock = 2, callback_raises = False\<rparr>]
       ((CameraManager_init 0 0 0 :: (unit, unit) CameraManager)
          \<lparr>cap := Some \<lparr>isOpened = True\<rparr>, is_running := True\<rparr>) =
     (CameraManager_init 0 0 0)\<lparr>cap := Some \<lparr>isOpened = True\<rparr>, is_running := True\<rparr>"
proof -
  let ?drv = "\<lparr>VideoCapture_open = (\<lambda>i. Inr (0 \<le> i)), cap_set = None,
               cap_read = Inr False\<rparr>"
  let ?t = "\<lparr>read = Inr (False, ()), clock = 1, callback_raises = False\<rparr>"
  let ?ts = "[\<lparr>read = Inr (True, ()), clock = 2, callback_raises = False\<rparr>]"
  let ?new = "CameraManager_init (- 1) 0 0 :: (unit, unit) CameraManager"
  let ?stale = "(CameraManager_init 0 0 0 :: (unit, unit) CameraManager)
         \<lparr>cap := Some \<lparr>isOpened = False\<rparr>, is_running := True, capture_thread := True\<rparr>"
  let ?live = "(CameraManager_init 0 0 0 :: (unit, unit) CameraManager)
          \<lparr>cap := Some \<lparr>isOpened = True\<rparr>, is_running := True\<rparr>"
  have a: "start_capture ?drv (None :: unit option) ?new =
     (Some (RuntimeError ''Failed to initialize camera''),
      CameraManager_init (- 1) 0 0\<lparr>cap := Some \<lparr>isOpened = False\<rparr>\<rparr>)"
    using device_failures_surfaced [of ?new ?drv "None :: unit option" ?t ?ts]
    by (simp add: CameraManager_init_def cap_is_open_def initialize_camera_def)
  have b: "start_capture ?drv (Some ()) ?stale =
     (Some (RuntimeError ''Failed to initialize camera''), ?stale)"
    using device_failures_surfaced [of ?stale ?drv "Some ()" ?t ?ts]
    by (simp add: CameraManager_init_def cap_is_open_def initialize_camera_def)
  have c: "capture_loop (?t # ?ts) ?live = ?live"
    using device_failures_surfaced [of ?live ?drv "None :: unit option" ?t ?ts]
    by simp
  from a b c show ?thesis by simp
qed

section \<open>Properties of OpenCVDetector\<close>















text \<open>
  C1 at a region with origin \<open>(10, 20)\<close>. In the cropped image the single QR decoder
  finds \<open>A\<close> with corners \<open>(1, 2), (4, 2), (4, 6), (1, 6)\<close> and pyzbar finds \<open>B\<close> in the
  rectangle \<open>(1, 2, 3, 4)\<close>. The QR result comes back moved by the origin, to the
  rectangle \<open>(11, 22, 3, 4)\<close>; the pyzbar result comes back with the coordinates of the
  cropped image, \<open>(1, 2, 3, 4)\<close>, where the claim asks for \<open>(11, 22, 3, 4)\<close>.
\<close>

theorem detect_codes_barcode_not_offset:
  "map (\<lambda>res. (data res, type res, rect res, polygon res))
     (fst (detect_codes
        \<lparr>detectAndDecode = (\<lambda>img. Inr (''A'', Some [[(1, 2), (4, 2), (4, 6), (1, 6)]])),
         detectAndDecodeMulti = (\<lambda>img. Inr (False, [], [])),
         pyzbar_decode = (\<lambda>img. Inr [\<lparr>bc_data = Some ''B'', bc_type = ''CODE128'',
           bc_rect = (1, 2, 3, 4), bc_polygon = []\<rparr>])\<rparr>
        real [] [[0::nat]] (Some (10, 20, 100, 100)))) =
   [(''A'', ''QRCODE'', (11, 22, 3, 4), [(11, 22), (14, 22), (14, 26), (11, 26)]),
    (''B'', ''CODE128'', (1, 2, 3, 4), [(1, 2), (4, 2), (4, 6), (1, 6)])]"
  by (simp add: detect_codes_def sub_image_def roi_origin_def qr_block_def single_qr_def
      qr_result_def offset_polygon_def bounding_rect_def py_int_def barcode_block_def
      barcode_result_def any_data_def Let_def)

end
